theory Spec2Isabelle
  imports Complex_Main "HOL-Library.Word" "HOL-Library.Log_Nat"
begin

section \<open>JavaScript strings\<close>

text \<open>
  A JavaScript string is a sequence of UTF-16 code units.  The literals of
  \<^verbatim>\<open>App.tsx\<close> that lie outside ASCII are written as their code units.
\<close>

type_synonym jsstring = "16 word list"

definition js :: "string \<Rightarrow> jsstring" where
  "js s = map of_char s"

text \<open>
  \<^verbatim>\<open>String.prototype.trim\<close> removes leading and trailing WhiteSpace and
  LineTerminator code points (TAB, VT, FF, SP, NBSP, ZWNBSP, the Unicode space
  separators, LF, CR, LS, PS).  All of them are single code units.
\<close>

definition isWhiteSpace :: "16 word \<Rightarrow> bool" where
  "isWhiteSpace c \<longleftrightarrow>
     c = 0x0009 \<or> c = 0x000B \<or> c = 0x000C \<or> c = 0x0020 \<or> c = 0x00A0 \<or> c = 0xFEFF \<or>
     c = 0x1680 \<or> (0x2000 \<le> c \<and> c \<le> 0x200A) \<or> c = 0x202F \<or> c = 0x205F \<or> c = 0x3000"

definition isLineTerminator :: "16 word \<Rightarrow> bool" where
  "isLineTerminator c \<longleftrightarrow> c = 0x000A \<or> c = 0x000D \<or> c = 0x2028 \<or> c = 0x2029"

definition trimStart :: "jsstring \<Rightarrow> jsstring" where
  "trimStart s = dropWhile (\<lambda>c. isWhiteSpace c \<or> isLineTerminator c) s"

definition trimEnd :: "jsstring \<Rightarrow> jsstring" where
  "trimEnd s = rev (trimStart (rev s))"

definition trim :: "jsstring \<Rightarrow> jsstring" where
  "trim s = trimEnd (trimStart s)"

text \<open>A string is falsy exactly when it is empty.\<close>

definition falsy :: "jsstring \<Rightarrow> bool" where
  "falsy s \<longleftrightarrow> s = []"


section \<open>The response of \<^verbatim>\<open>GetNodeConfig\<close>\<close>

text \<open>
  The enum \<^verbatim>\<open>PortMappingMode\<close> and the message \<^verbatim>\<open>GetNodeConfigResponse\<close> are
  generated code (\<^verbatim>\<open>@/gen/proto/manager_pb\<close>).  The three named members are
  the ones \<^verbatim>\<open>MODE_LABELS\<close> lists; a protobuf enum is open, so a field can also
  hold a number that is none of them.
\<close>

datatype PortMappingMode = UNSPECIFIED | SERVER | CLIENT | UNRECOGNIZED int

record PortMapping =
  mode :: PortMappingMode
  configJson :: jsstring

record GetNodeConfigResponse =
  name :: jsstring
  portMapping :: "PortMapping option"


section \<open>Mode labels\<close>

definition MODE_LABELS :: "PortMappingMode \<rightharpoonup> jsstring" where
  "MODE_LABELS =
     [UNSPECIFIED \<mapsto> js ''Unspecified'',
      SERVER \<mapsto> js ''Server'',
      CLIENT \<mapsto> js ''Client'']"

text \<open>\<^verbatim>\<open>MODE_LABELS[mode] ?? 'Unknown'\<close>: a missing property reads as undefined.\<close>

definition getModeLabel :: "PortMappingMode \<Rightarrow> jsstring" where
  "getModeLabel m = (case MODE_LABELS m of Some l \<Rightarrow> l | None \<Rightarrow> js ''Unknown'')"


section \<open>The submit handler\<close>

text \<open>What the remote call can be rejected with: a \<^verbatim>\<open>ConnectError\<close> (which is
  an \<^verbatim>\<open>Error\<close> and carries \<^verbatim>\<open>rawMessage\<close> beside \<^verbatim>\<open>message\<close>), another
  \<^verbatim>\<open>Error\<close>, or any other thrown value.\<close>

datatype fault =
    ConnectError (rawMessage: jsstring) (connectMessage: jsstring)
  | Error (message: jsstring)
  | OtherThrown

type_synonym transport = "jsstring \<Rightarrow> fault + GetNodeConfigResponse"

record AppState =
  nodeName :: jsstring
  loading :: bool
  errorMessage :: "jsstring option"
  response :: "GetNodeConfigResponse option"

text \<open>The handler's observable steps, in the order it performs them.\<close>

datatype effect =
    PreventDefault
  | SetLoading bool
  | SetErrorMessage "jsstring option"
  | SetResponse "GetNodeConfigResponse option"
  | GetNodeConfig jsstring
  | ToastError jsstring
  | ToastSuccess jsstring
  | ToastInfo jsstring

definition validationMessage :: jsstring where
  "validationMessage = [0x8BF7, 0x8F93, 0x5165, 0x8282, 0x70B9, 0x540D, 0x79F0]"

definition fallbackMessage :: jsstring where
  "fallbackMessage = [0x65E0, 0x6CD5, 0x83B7, 0x53D6, 0x8282, 0x70B9, 0x914D, 0x7F6E]"

definition noPortMappingNotice :: jsstring where
  "noPortMappingNotice =
     [0x8BE5, 0x8282, 0x70B9, 0x6CA1, 0x6709, 0x914D, 0x7F6E, 0x7AEF, 0x53E3, 0x6620, 0x5C04]"

text \<open>The template literal of the success toast, around \<^verbatim>\<open>result.name || trimmed\<close>.\<close>

definition successMessage :: "jsstring \<Rightarrow> jsstring" where
  "successMessage shown =
     [0x5DF2, 0x52A0, 0x8F7D, 0x8282, 0x70B9, 0x300C] @ shown @ [0x300D, 0x7684, 0x914D, 0x7F6E]"

text \<open>The \<^verbatim>\<open>catch\<close> block's choice of message: \<^verbatim>\<open>instanceof ConnectError\<close> is
  tested first, then \<^verbatim>\<open>instanceof Error\<close>.\<close>

fun faultMessage :: "fault \<Rightarrow> jsstring" where
  "faultMessage (ConnectError raw msg) = raw"
| "faultMessage (Error msg) = msg"
| "faultMessage OtherThrown = fallbackMessage"

definition onRejected :: "fault \<Rightarrow> effect list" where
  "onRejected err =
     (let message = faultMessage err
      in [SetErrorMessage (Some message), SetResponse None, ToastError message])"

definition onResolved :: "jsstring \<Rightarrow> GetNodeConfigResponse \<Rightarrow> effect list" where
  "onResolved trimmed result =
     [SetResponse (Some result),
      ToastSuccess (successMessage (if falsy (name result) then trimmed else name result))]
     @ (if portMapping result = None then [ToastInfo noPortMappingNotice] else [])"

definition handleSubmit :: "transport \<Rightarrow> AppState \<Rightarrow> effect list" where
  "handleSubmit call s =
     (let trimmed = trim (nodeName s) in
      if falsy trimmed then
        (let message = validationMessage
         in [PreventDefault, SetErrorMessage (Some message), SetResponse None,
             ToastError message])
      else
        [PreventDefault, SetLoading True, SetErrorMessage None, GetNodeConfig trimmed]
        @ (case call trimmed of
             Inr result \<Rightarrow> onResolved trimmed result
           | Inl err \<Rightarrow> onRejected err)
        @ [SetLoading False])"

fun perform :: "AppState \<Rightarrow> effect \<Rightarrow> AppState" where
  "perform s (SetLoading b) = s\<lparr>loading := b\<rparr>"
| "perform s (SetErrorMessage m) = s\<lparr>errorMessage := m\<rparr>"
| "perform s (SetResponse r) = s\<lparr>response := r\<rparr>"
| "perform s _ = s"

definition run :: "effect list \<Rightarrow> AppState \<Rightarrow> AppState" where
  "run es s = foldl perform s es"

definition submit :: "transport \<Rightarrow> AppState \<Rightarrow> AppState" where
  "submit call s = run (handleSubmit call s) s"

definition dispatched :: "effect list \<Rightarrow> jsstring list" where
  "dispatched es = concat (map (\<lambda>e. case e of GetNodeConfig n \<Rightarrow> [n] | _ \<Rightarrow> []) es)"

definition errorToasts :: "effect list \<Rightarrow> jsstring list" where
  "errorToasts es = concat (map (\<lambda>e. case e of ToastError m \<Rightarrow> [m] | _ \<Rightarrow> []) es)"

definition infoToasts :: "effect list \<Rightarrow> jsstring list" where
  "infoToasts es = concat (map (\<lambda>e. case e of ToastInfo m \<Rightarrow> [m] | _ \<Rightarrow> []) es)"


section \<open>Numbers\<close>

datatype Number = Finite (negative: bool) (mantissa: nat) (exponent: int) | Infinity bool | NaN

type_synonym fraction = "nat \<times> nat"

definition mulPow :: "nat \<Rightarrow> fraction \<Rightarrow> int \<Rightarrow> fraction" where
  "mulPow b f e = (if 0 \<le> e then (fst f * b ^ nat e, snd f) else (fst f, snd f * b ^ nat (- e)))"

definition ilog :: "nat \<Rightarrow> fraction \<Rightarrow> int" where
  "ilog b f =
     (let d = int (floorlog b (fst f)) - int (floorlog b (snd f));
          g = mulPow b f (- d)
      in if snd g \<le> fst g then d else d - 1)"

definition roundTiesToEven :: "fraction \<Rightarrow> nat" where
  "roundTiesToEven f =
     (let a = fst f; b = snd f; q = a div b; r = a mod b
      in if 2 * r < b then q
         else if b < 2 * r then q + 1
         else if even q then q else q + 1)"

definition toDouble :: "bool \<Rightarrow> fraction \<Rightarrow> Number" where
  "toDouble neg f =
     (if fst f = 0 then Finite neg 0 (- 1074)
      else
        let e = max (ilog 2 f - 52) (- 1074);
            m = roundTiesToEven (mulPow 2 f (- e))
        in if m = 2 ^ 53 then (if 971 \<le> e then Infinity neg else Finite neg (2 ^ 52) (e + 1))
           else if 971 < e then Infinity neg else Finite neg m e)"

definition isFinite :: "Number \<Rightarrow> bool" where
  "isFinite x = (case x of Finite _ _ _ \<Rightarrow> True | _ \<Rightarrow> False)"

text \<open>Strict equality on numbers\<close>
definition strictEqualsNumber :: "Number \<Rightarrow> Number \<Rightarrow> bool" where
  "strictEqualsNumber x y =
     (case (x, y) of
        (Finite s m e, Finite s' m' e') \<Rightarrow> (m = 0 \<and> m' = 0) \<or> (s = s' \<and> m = m' \<and> e = e')
      | (Infinity s, Infinity s') \<Rightarrow> s = s'
      | _ \<Rightarrow> False)"

subsection \<open>Number::toString\<close>

definition digitChar :: "nat \<Rightarrow> 16 word" where
  "digitChar d = of_nat (48 + d)"

function digitsOf :: "nat \<Rightarrow> jsstring" where
  "digitsOf n = (if n < 10 then [digitChar n] else digitsOf (n div 10) @ [digitChar (n mod 10)])"
  by pat_completeness auto
termination
  by (relation "measure id") auto

declare digitsOf.simps [simp del]

definition fracDist :: "fraction \<Rightarrow> fraction \<Rightarrow> fraction" where
  "fracDist f g =
     (let a = fst f * snd g; b = fst g * snd f
      in ((if a \<le> b then b - a else a - b), snd f * snd g))"

definition fracLess :: "fraction \<Rightarrow> fraction \<Rightarrow> bool" where
  "fracLess f g \<longleftrightarrow> fst f * snd g < fst g * snd f"

definition digitCandidates :: "Number \<Rightarrow> fraction \<Rightarrow> nat \<Rightarrow> (int \<times> nat) list" where
  "digitCandidates x f k =
     concat (map (\<lambda>n.
         (let g = mulPow 10 f (int k - n); lo = fst g div snd g
          in filter (\<lambda>(n, s). 10 ^ (k - 1) \<le> s \<and> s < 10 ^ k \<and>
                                toDouble False (mulPow 10 (s, 1) (n - int k)) = x)
               [(n, lo), (n, lo + 1)]))
       [ilog 10 f + 1, ilog 10 f + 2])"

definition closer :: "fraction \<Rightarrow> nat \<Rightarrow> (int \<times> nat) \<Rightarrow> (int \<times> nat) \<Rightarrow> (int \<times> nat)" where
  "closer f k c d =
     (let dc = fracDist (mulPow 10 (snd c, 1) (fst c - int k)) f;
          dd = fracDist (mulPow 10 (snd d, 1) (fst d - int k)) f
      in if fracLess dd dc \<or> (\<not> fracLess dc dd \<and> even (snd d) \<and> odd (snd c)) then d else c)"

function stripZeros :: "nat \<Rightarrow> int \<Rightarrow> nat \<times> int" where
  "stripZeros s j = (if 0 < s \<and> s mod 10 = 0 then stripZeros (s div 10) (j - 1) else (s, j))"
  by pat_completeness auto
termination
  by (relation "measure fst") auto

declare stripZeros.simps [simp del]

definition exactDigits :: "nat \<Rightarrow> int \<Rightarrow> int \<times> nat \<times> nat" where
  "exactDigits m e =
     (let (s, j) = (if 0 \<le> e then stripZeros (m * 2 ^ nat e) 0
                    else stripZeros (m * 5 ^ nat (- e)) (- e));
          k = floorlog 10 s
      in (int k - j, k, s))"

definition shortestDigits :: "nat \<Rightarrow> int \<Rightarrow> int \<times> nat \<times> nat" where
  "shortestDigits m e =
     (let x = Finite False m e; f = mulPow 2 (m, 1) e
      in case List.find (\<lambda>k. digitCandidates x f k \<noteq> []) [1..<18] of
           Some k \<Rightarrow>
             (let cs = digitCandidates x f k; c = foldl (closer f k) (hd cs) (tl cs)
              in (fst c, k, snd c))
         | None \<Rightarrow> exactDigits m e)"

definition formatDigits :: "int \<times> nat \<times> nat \<Rightarrow> jsstring" where
  "formatDigits t =
     (let n = fst t; k = fst (snd t); ds = digitsOf (snd (snd t)) in
      if int k \<le> n \<and> n \<le> 21 then ds @ replicate (nat (n - int k)) 0x30
      else if 0 < n \<and> n \<le> 21 then take (nat n) ds @ [0x2E] @ drop (nat n) ds
      else if - 6 < n \<and> n \<le> 0 then [0x30, 0x2E] @ replicate (nat (- n)) 0x30 @ ds
      else
        (let e = n - 1;
             sign = (if e < 0 then 0x2D else 0x2B);
             es = digitsOf (nat \<bar>e\<bar>)
         in if k = 1 then ds @ [0x65, sign] @ es
            else hd ds # 0x2E # tl ds @ [0x65, sign] @ es))"

definition Number_toString :: "Number \<Rightarrow> jsstring" where
  "Number_toString x =
     (case x of
        NaN \<Rightarrow> js ''NaN''
      | Infinity neg \<Rightarrow> (if neg then js ''-Infinity'' else js ''Infinity'')
      | Finite neg m e \<Rightarrow>
          if m = 0 then js ''0''
          else (if neg then [0x2D] else []) @ formatDigits (shortestDigits m e))"


section \<open>JSON values\<close>

datatype json =
    JNull
  | JBool bool
  | JNum Number
  | JStr jsstring
  | JArr "json list"
  | JObj "(jsstring \<times> json) list"

subsection \<open>Property order of ordinary objects\<close>

definition isDigit :: "16 word \<Rightarrow> bool" where
  "isDigit c \<longleftrightarrow> 0x30 \<le> c \<and> c \<le> 0x39"

definition digitValue :: "16 word \<Rightarrow> nat" where
  "digitValue c = unat c - 48"

definition digitsValue :: "jsstring \<Rightarrow> nat" where
  "digitsValue ds = foldl (\<lambda>a c. 10 * a + digitValue c) 0 ds"

definition arrayIndex :: "jsstring \<Rightarrow> nat option" where
  "arrayIndex k =
     (if k \<noteq> [] \<and> list_all isDigit k \<and> (k = [0x30] \<or> hd k \<noteq> 0x30) \<and>
         digitsValue k < 2 ^ 32 - 1
      then Some (digitsValue k) else None)"

fun insertIndexed :: "nat \<Rightarrow> jsstring \<times> json \<Rightarrow> (jsstring \<times> json) list \<Rightarrow> (jsstring \<times> json) list" where
  "insertIndexed i p [] = [p]"
| "insertIndexed i p (q # ps) =
     (case arrayIndex (fst q) of
        Some j \<Rightarrow> if j < i then q # insertIndexed i p ps else p # q # ps
      | None \<Rightarrow> p # q # ps)"

fun replaceValue :: "jsstring \<Rightarrow> json \<Rightarrow> (jsstring \<times> json) list \<Rightarrow> (jsstring \<times> json) list" where
  "replaceValue k v [] = []"
| "replaceValue k v (q # ps) = (if fst q = k then (k, v) # ps else q # replaceValue k v ps)"

definition putProperty :: "jsstring \<Rightarrow> json \<Rightarrow> (jsstring \<times> json) list \<Rightarrow> (jsstring \<times> json) list" where
  "putProperty k v ps =
     (if k \<in> fst ` set ps then replaceValue k v ps
      else case arrayIndex k of
             Some i \<Rightarrow> insertIndexed i (k, v) ps
           | None \<Rightarrow> ps @ [(k, v)])"

subsection \<open>Tokens\<close>

datatype token =
    LBrace | RBrace | LBracket | RBracket | Colon | Comma
  | StringTok jsstring | NumberTok Number | TrueTok | FalseTok | NullTok

definition isJSONWhiteSpace :: "16 word \<Rightarrow> bool" where
  "isJSONWhiteSpace c \<longleftrightarrow> c = 0x09 \<or> c = 0x0A \<or> c = 0x0D \<or> c = 0x20"

definition hexValue :: "16 word \<Rightarrow> nat option" where
  "hexValue c =
     (if 0x30 \<le> c \<and> c \<le> 0x39 then Some (unat c - 48)
      else if 0x41 \<le> c \<and> c \<le> 0x46 then Some (unat c - 55)
      else if 0x61 \<le> c \<and> c \<le> 0x66 then Some (unat c - 87)
      else None)"

definition hex4 :: "16 word \<Rightarrow> 16 word \<Rightarrow> 16 word \<Rightarrow> 16 word \<Rightarrow> 16 word option" where
  "hex4 a b c d =
     (case (hexValue a, hexValue b, hexValue c, hexValue d) of
        (Some x, Some y, Some z, Some w) \<Rightarrow> Some (of_nat (4096 * x + 256 * y + 16 * z + w))
      | _ \<Rightarrow> None)"

definition escapeValue :: "16 word \<Rightarrow> 16 word option" where
  "escapeValue c =
     (if c = 0x22 then Some 0x22
      else if c = 0x2F then Some 0x2F
      else if c = 0x5C then Some 0x5C
      else if c = 0x62 then Some 0x08
      else if c = 0x66 then Some 0x0C
      else if c = 0x6E then Some 0x0A
      else if c = 0x72 then Some 0x0D
      else if c = 0x74 then Some 0x09
      else None)"

definition consString :: "16 word \<Rightarrow> (jsstring \<times> jsstring) option \<Rightarrow> (jsstring \<times> jsstring) option" where
  "consString c r = map_option (\<lambda>(s, rest). (c # s, rest)) r"

fun scanString :: "jsstring \<Rightarrow> (jsstring \<times> jsstring) option" where
  "scanString [] = None"
| "scanString (c # cs) =
     (if c = 0x22 then Some ([], cs)
      else if c = 0x5C then
        (case cs of
           [] \<Rightarrow> None
         | e # es \<Rightarrow>
             if e = 0x75 then
               (case es of
                  h1 # h2 # h3 # h4 # rest \<Rightarrow>
                    (case hex4 h1 h2 h3 h4 of
                       None \<Rightarrow> None
                     | Some u \<Rightarrow> consString u (scanString rest))
                | _ \<Rightarrow> None)
             else
               (case escapeValue e of
                  None \<Rightarrow> None
                | Some d \<Rightarrow> consString d (scanString es)))
      else if c < 0x20 then None
      else consString c (scanString cs))"

text \<open>The digits at the start of a text, and what follows them.\<close>

definition scanDigits :: "jsstring \<Rightarrow> jsstring \<times> jsstring" where
  "scanDigits cs = (takeWhile isDigit cs, dropWhile isDigit cs)"

definition scanInteger :: "jsstring \<Rightarrow> (jsstring \<times> jsstring) option" where
  "scanInteger cs =
     (case cs of
        [] \<Rightarrow> None
      | c # rest \<Rightarrow>
          if c = 0x30 then Some ([c], rest)
          else if isDigit c then Some (scanDigits cs)
          else None)"

definition scanFraction :: "jsstring \<Rightarrow> jsstring \<times> jsstring" where
  "scanFraction cs =
     (case cs of
        c # d # rest \<Rightarrow>
          if c = 0x2E \<and> isDigit d then scanDigits (d # rest) else ([], cs)
      | _ \<Rightarrow> ([], cs))"

definition scanExponent :: "jsstring \<Rightarrow> int \<times> jsstring" where
  "scanExponent cs =
     (case cs of
        c # d # rest \<Rightarrow>
          if c = 0x65 \<or> c = 0x45 then
            (if isDigit d then
               (let (ds, r) = scanDigits (d # rest) in (int (digitsValue ds), r))
             else if d = 0x2B \<or> d = 0x2D then
               (case rest of
                  g # rest' \<Rightarrow>
                    if isDigit g then
                      (let (ds, r) = scanDigits rest
                       in ((if d = 0x2D then - int (digitsValue ds) else int (digitsValue ds)), r))
                    else (0, cs)
                | [] \<Rightarrow> (0, cs))
             else (0, cs))
          else (0, cs)
      | _ \<Rightarrow> (0, cs))"

definition scanNumber :: "jsstring \<Rightarrow> (Number \<times> jsstring) option" where
  "scanNumber cs =
     (let neg = (cs \<noteq> [] \<and> hd cs = 0x2D);
          cs1 = (if neg then tl cs else cs)
      in case scanInteger cs1 of
           None \<Rightarrow> None
         | Some (ip, cs2) \<Rightarrow>
             (let (fp, cs3) = scanFraction cs2;
                  (ex, cs4) = scanExponent cs3
              in Some (toDouble neg (mulPow 10 (digitsValue (ip @ fp), 1) (ex - int (length fp))),
                       cs4)))"

definition consToken :: "token \<Rightarrow> token list option \<Rightarrow> token list option" where
  "consToken t r = map_option ((#) t) r"

function tokenize :: "jsstring \<Rightarrow> token list option" where
  "tokenize [] = Some []"
| "tokenize (c # cs) =
     (if isJSONWhiteSpace c then tokenize cs
      else if c = 0x7B then consToken LBrace (tokenize cs)
      else if c = 0x7D then consToken RBrace (tokenize cs)
      else if c = 0x5B then consToken LBracket (tokenize cs)
      else if c = 0x5D then consToken RBracket (tokenize cs)
      else if c = 0x3A then consToken Colon (tokenize cs)
      else if c = 0x2C then consToken Comma (tokenize cs)
      else if c = 0x22 then
        (case scanString cs of
           None \<Rightarrow> None
         | Some (s, rest) \<Rightarrow> consToken (StringTok s) (tokenize rest))
      else if c = 0x2D \<or> isDigit c then
        (case scanNumber (c # cs) of
           None \<Rightarrow> None
         | Some (x, rest) \<Rightarrow> consToken (NumberTok x) (tokenize rest))
      else if take 4 (c # cs) = js ''true'' then consToken TrueTok (tokenize (drop 3 cs))
      else if take 5 (c # cs) = js ''false'' then consToken FalseTok (tokenize (drop 4 cs))
      else if take 4 (c # cs) = js ''null'' then consToken NullTok (tokenize (drop 3 cs))
      else None)"
  by pat_completeness auto

lemma scanString_length:
  "scanString cs = Some (s, rest) \<Longrightarrow> length rest < length cs"
proof (induction cs arbitrary: s rest rule: scanString.induct)
  case 1
  then show ?case by simp
next
  case (2 c cs)
  show ?case
    using "2.prems" "2.IH"
    by (fastforce simp: consString_def split: if_splits list.splits option.splits)
qed

lemma scanDigits_length: "scanDigits cs = (ds, rest) \<Longrightarrow> length rest \<le> length cs"
  by (auto simp: scanDigits_def length_dropWhile_le)

lemma scanInteger_length: "scanInteger cs = Some (ds, rest) \<Longrightarrow> length rest < length cs"
proof -
  assume a: "scanInteger cs = Some (ds, rest)"
  then obtain c cs' where cs: "cs = c # cs'" by (cases cs) (auto simp: scanInteger_def)
  show ?thesis
  proof (cases "c = 0x30")
    case True
    with a cs show ?thesis by (simp add: scanInteger_def)
  next
    case False
    with a cs have d: "isDigit c" and r: "rest = dropWhile isDigit cs"
      by (auto simp: scanInteger_def scanDigits_def split: if_splits)
    from d cs have "rest = dropWhile isDigit cs'" using r by simp
    then have "length rest \<le> length cs'" by (simp add: length_dropWhile_le)
    with cs show ?thesis by simp
  qed
qed

lemma scanFraction_length: "scanFraction cs = (ds, rest) \<Longrightarrow> length rest \<le> length cs"
  by (auto simp: scanFraction_def dest!: scanDigits_length split: list.splits if_splits)

lemma scanExponent_length: "scanExponent cs = (ex, rest) \<Longrightarrow> length rest \<le> length cs"
  by (auto simp: scanExponent_def Let_def dest!: scanDigits_length
           split: list.splits if_splits prod.splits)

lemma scanNumber_length:
  "scanNumber cs = Some (x, rest) \<Longrightarrow> length rest < length cs"
proof -
  assume a: "scanNumber cs = Some (x, rest)"
  define cs1 where "cs1 = (if cs \<noteq> [] \<and> hd cs = 0x2D then tl cs else cs)"
  from a obtain ip cs2 where i: "scanInteger cs1 = Some (ip, cs2)"
    by (auto simp: scanNumber_def Let_def cs1_def split: option.splits)
  obtain fp cs3 where f: "scanFraction cs2 = (fp, cs3)" by (cases "scanFraction cs2")
  obtain ex cs4 where e: "scanExponent cs3 = (ex, cs4)" by (cases "scanExponent cs3")
  from a i f e have "rest = cs4" by (simp add: scanNumber_def Let_def cs1_def)
  moreover have "length cs2 < length cs1" using i by (rule scanInteger_length)
  moreover have "length cs3 \<le> length cs2" using f by (rule scanFraction_length)
  moreover have "length cs4 \<le> length cs3" using e by (rule scanExponent_length)
  moreover have "length cs1 \<le> length cs" by (simp add: cs1_def)
  ultimately show ?thesis by simp
qed

termination tokenize
proof (relation "measure length", goal_cases)
  case 1
  then show ?case by simp
next
  case (9 c cs x2 x y)
  then show ?case using scanString_length [of cs x y] by simp
next
  case (10 c cs x2 x y)
  then show ?case using scanNumber_length [of "c # cs" x y] by simp
qed simp_all

subsection \<open>Parsing\<close>

datatype frame = InArray "json list" | InObject "(jsstring \<times> json) list" jsstring

datatype pstate =
    ExpectValue "frame list"
  | AfterOpenArray "frame list"
  | AfterElement "json list" "frame list"
  | AfterOpenObject "frame list"
  | ExpectKey "(jsstring \<times> json) list" "frame list"
  | ExpectColon "(jsstring \<times> json) list" jsstring "frame list"
  | AfterMember "(jsstring \<times> json) list" "frame list"
  | Done json

fun deliver :: "json \<Rightarrow> frame list \<Rightarrow> pstate" where
  "deliver v [] = Done v"
| "deliver v (InArray vs # ctx) = AfterElement (vs @ [v]) ctx"
| "deliver v (InObject ps k # ctx) = AfterMember (putProperty k v ps) ctx"

fun startValue :: "frame list \<Rightarrow> token \<Rightarrow> pstate option" where
  "startValue ctx NullTok = Some (deliver JNull ctx)"
| "startValue ctx TrueTok = Some (deliver (JBool True) ctx)"
| "startValue ctx FalseTok = Some (deliver (JBool False) ctx)"
| "startValue ctx (NumberTok x) = Some (deliver (JNum x) ctx)"
| "startValue ctx (StringTok s) = Some (deliver (JStr s) ctx)"
| "startValue ctx LBracket = Some (AfterOpenArray ctx)"
| "startValue ctx LBrace = Some (AfterOpenObject ctx)"
| "startValue ctx _ = None"

fun step :: "pstate \<Rightarrow> token \<Rightarrow> pstate option" where
  "step (ExpectValue ctx) t = startValue ctx t"
| "step (AfterOpenArray ctx) t =
     (if t = RBracket then Some (deliver (JArr []) ctx) else startValue (InArray [] # ctx) t)"
| "step (AfterElement vs ctx) t =
     (if t = Comma then Some (ExpectValue (InArray vs # ctx))
      else if t = RBracket then Some (deliver (JArr vs) ctx)
      else None)"
| "step (AfterOpenObject ctx) t =
     (case t of
        RBrace \<Rightarrow> Some (deliver (JObj []) ctx)
      | StringTok k \<Rightarrow> Some (ExpectColon [] k ctx)
      | _ \<Rightarrow> None)"
| "step (ExpectKey ps ctx) t =
     (case t of StringTok k \<Rightarrow> Some (ExpectColon ps k ctx) | _ \<Rightarrow> None)"
| "step (ExpectColon ps k ctx) t =
     (if t = Colon then Some (ExpectValue (InObject ps k # ctx)) else None)"
| "step (AfterMember ps ctx) t =
     (if t = Comma then Some (ExpectKey ps ctx)
      else if t = RBrace then Some (deliver (JObj ps) ctx)
      else None)"
| "step (Done v) t = None"

fun steps :: "pstate \<Rightarrow> token list \<Rightarrow> pstate option" where
  "steps st [] = Some st"
| "steps st (t # ts) = (case step st t of None \<Rightarrow> None | Some st' \<Rightarrow> steps st' ts)"

definition parseTokens :: "token list \<Rightarrow> json option" where
  "parseTokens ts = (case steps (ExpectValue []) ts of Some (Done v) \<Rightarrow> Some v | _ \<Rightarrow> None)"

definition JSON_parse :: "jsstring \<Rightarrow> json option" where
  "JSON_parse text = (case tokenize text of None \<Rightarrow> None | Some ts \<Rightarrow> parseTokens ts)"

subsection \<open>Serialisation\<close>

definition hexDigit :: "nat \<Rightarrow> 16 word" where
  "hexDigit d = (if d < 10 then of_nat (48 + d) else of_nat (87 + d))"

definition UnicodeEscape :: "16 word \<Rightarrow> jsstring" where
  "UnicodeEscape c =
     (let n = unat c
      in [0x5C, 0x75, hexDigit (n div 4096), hexDigit (n div 256 mod 16),
          hexDigit (n div 16 mod 16), hexDigit (n mod 16)])"

definition isLeadingSurrogate :: "16 word \<Rightarrow> bool" where
  "isLeadingSurrogate c \<longleftrightarrow> 0xD800 \<le> c \<and> c \<le> 0xDBFF"

definition isTrailingSurrogate :: "16 word \<Rightarrow> bool" where
  "isTrailingSurrogate c \<longleftrightarrow> 0xDC00 \<le> c \<and> c \<le> 0xDFFF"

definition quoteUnit :: "16 word \<Rightarrow> jsstring" where
  "quoteUnit c =
     (if c = 0x08 then [0x5C, 0x62]
      else if c = 0x09 then [0x5C, 0x74]
      else if c = 0x0A then [0x5C, 0x6E]
      else if c = 0x0C then [0x5C, 0x66]
      else if c = 0x0D then [0x5C, 0x72]
      else if c = 0x22 then [0x5C, 0x22]
      else if c = 0x5C then [0x5C, 0x5C]
      else if c < 0x20 \<or> isLeadingSurrogate c \<or> isTrailingSurrogate c then UnicodeEscape c
      else [c])"

fun quoteUnits :: "jsstring \<Rightarrow> jsstring" where
  "quoteUnits [] = []"
| "quoteUnits [c] = quoteUnit c"
| "quoteUnits (c # d # cs) =
     (if isLeadingSurrogate c \<and> isTrailingSurrogate d then c # d # quoteUnits cs
      else quoteUnit c @ quoteUnits (d # cs))"

definition QuoteJSONString :: "jsstring \<Rightarrow> jsstring" where
  "QuoteJSONString s = [0x22] @ quoteUnits s @ [0x22]"

fun join :: "jsstring \<Rightarrow> jsstring list \<Rightarrow> jsstring" where
  "join sep [] = []"
| "join sep [x] = x"
| "join sep (x # y # xs) = x @ sep @ join sep (y # xs)"

fun SerializeJSONProperty :: "jsstring \<Rightarrow> jsstring \<Rightarrow> json \<Rightarrow> jsstring" where
  "SerializeJSONProperty gap indent JNull = js ''null''"
| "SerializeJSONProperty gap indent (JBool b) = (if b then js ''true'' else js ''false'')"
| "SerializeJSONProperty gap indent (JNum x) =
     (if isFinite x then Number_toString x else js ''null'')"
| "SerializeJSONProperty gap indent (JStr s) = QuoteJSONString s"
| "SerializeJSONProperty gap indent (JArr vs) =
     (let stepback = indent;
          indent = indent @ gap;
          partial = map (SerializeJSONProperty gap indent) vs
      in if partial = [] then js ''[]''
         else if gap = [] then js ''['' @ join (js '','') partial @ js '']''
         else js ''['' @ [0x0A] @ indent @ join (js '','' @ [0x0A] @ indent) partial
              @ [0x0A] @ stepback @ js '']'')"
| "SerializeJSONProperty gap indent (JObj ps) =
     (let stepback = indent;
          indent = indent @ gap;
          partial = map (\<lambda>p. QuoteJSONString (fst p) @ js '':''
                            @ (if gap = [] then [] else js '' '')
                            @ SerializeJSONProperty gap indent (snd p)) ps
      in if partial = [] then js ''{}''
         else if gap = [] then js ''{'' @ join (js '','') partial @ js ''}''
         else js ''{'' @ [0x0A] @ indent @ join (js '','' @ [0x0A] @ indent) partial
              @ [0x0A] @ stepback @ js ''}'')"

text \<open>\<^verbatim>\<open>JSON.stringify(value, null, space)\<close> for a number \<open>space\<close>.\<close>

definition JSON_stringify :: "json \<Rightarrow> nat \<Rightarrow> jsstring" where
  "JSON_stringify v space = SerializeJSONProperty (replicate (min 10 space) 0x20) [] v"


section \<open>Interpreting the payload\<close>

record details =
  hasConfig :: bool
  isJson :: bool
  pretty :: jsstring

definition emptyPlaceholder :: jsstring where
  "emptyPlaceholder = [0xFF08, 0x7A7A, 0x914D, 0x7F6E, 0xFF09]"

definition portMappingDetails :: "PortMapping option \<Rightarrow> details" where
  "portMappingDetails pm =
     (case pm of
        None \<Rightarrow> \<lparr>hasConfig = False, isJson = True, pretty = []\<rparr>
      | Some p \<Rightarrow>
          if falsy (configJson p) then
            \<lparr>hasConfig = True, isJson = True, pretty = emptyPlaceholder\<rparr>
          else
            (case JSON_parse (configJson p) of
               Some parsed \<Rightarrow>
                 \<lparr>hasConfig = True, isJson = True, pretty = JSON_stringify parsed 2\<rparr>
             | None \<Rightarrow>
                 \<lparr>hasConfig = True, isJson = False, pretty = configJson p\<rparr>))"

section \<open>The result card\<close>

definition idleText :: jsstring where
  "idleText =
     [0x67E5, 0x8BE2, 0x540E, 0x5C06, 0x5C55, 0x793A, 0x8282, 0x70B9, 0x540D, 0x79F0, 0x4EE5,
      0x53CA, 0x53EF, 0x80FD, 0x5B58, 0x5728, 0x7684, 0x7AEF, 0x53E3, 0x6620, 0x5C04, 0x4FE1,
      0x606F, 0x3002]"

definition noPortMappingText :: jsstring where
  "noPortMappingText =
     [0x8BE5, 0x8282, 0x70B9, 0x6CA1, 0x6709, 0x914D, 0x7F6E, 0x7AEF, 0x53E3, 0x6620, 0x5C04,
      0x3002]"

definition noDetailsText :: jsstring where
  "noDetailsText =
     [0x8BE5, 0x8282, 0x70B9, 0x672A, 0x63D0, 0x4F9B, 0x7AEF, 0x53E3, 0x6620, 0x5C04, 0x7684,
      0x8BE6, 0x7EC6, 0x914D, 0x7F6E, 0x3002]"

definition notJsonText :: jsstring where
  "notJsonText =
     [0x914D, 0x7F6E, 0x4E0D, 0x662F, 0x6709, 0x6548, 0x7684, 0x0020, 0x004A, 0x0053, 0x004F,
      0x004E, 0xFF0C, 0x5DF2, 0x6309, 0x539F, 0x59CB, 0x6587, 0x672C, 0x5C55, 0x793A, 0x3002]"

datatype configView =
    ConfigText jsstring "jsstring option"
  | NoDetails jsstring

datatype mappingView =
    PortMappingCard jsstring configView
  | NoPortMapping jsstring

datatype resultView =
    ResultCard jsstring mappingView
  | NothingYet jsstring

definition currentPortMapping :: "AppState \<Rightarrow> PortMapping option" where
  "currentPortMapping s = (case response s of None \<Rightarrow> None | Some r \<Rightarrow> portMapping r)"

definition resultCard :: "AppState \<Rightarrow> resultView" where
  "resultCard s =
     (case response s of
        Some r \<Rightarrow>
          ResultCard (name r)
            (case currentPortMapping s of
               Some p \<Rightarrow>
                 PortMappingCard (getModeLabel (mode p))
                   (let d = portMappingDetails (currentPortMapping s) in
                    if hasConfig d then
                      ConfigText (pretty d) (if \<not> isJson d then Some notJsonText else None)
                    else NoDetails noDetailsText)
             | None \<Rightarrow> NoPortMapping noPortMappingText)
      | None \<Rightarrow> NothingYet idleText)"


text \<open>A response without a port mapping, used in the examples below.\<close>

definition edge01 :: GetNodeConfigResponse where
  "edge01 = \<lparr>name = js ''edge-01'', portMapping = None\<rparr>"


section \<open>Properties of the mode labels\<close>

text \<open>
  C6.  The label resolver is total: UNSPECIFIED, SERVER and CLIENT map to
  "Unspecified", "Server" and "Client", and every other mode value maps to
  "Unknown".
\<close>

theorem getModeLabel_total:
  "getModeLabel UNSPECIFIED = js ''Unspecified'' \<and>
   getModeLabel SERVER = js ''Server'' \<and>
   getModeLabel CLIENT = js ''Client'' \<and>
   getModeLabel (UNRECOGNIZED n) = js ''Unknown''"
  by (simp add: getModeLabel_def MODE_LABELS_def)


section \<open>Properties of \<^verbatim>\<open>trim\<close>\<close>

lemma trimStart_split:
  "s = takeWhile (\<lambda>c. isWhiteSpace c \<or> isLineTerminator c) s @ trimStart s"
  unfolding trimStart_def by simp

lemma trimStart_Nil_iff:
  "trimStart s = [] \<longleftrightarrow> (\<forall>c\<in>set s. isWhiteSpace c \<or> isLineTerminator c)"
  unfolding trimStart_def by (simp add: dropWhile_eq_Nil_conv)

lemma trimEnd_Nil_iff:
  "trimEnd s = [] \<longleftrightarrow> (\<forall>c\<in>set s. isWhiteSpace c \<or> isLineTerminator c)"
  unfolding trimEnd_def by (simp add: trimStart_Nil_iff)

lemma trimStart_hd:
  "trimStart s \<noteq> [] \<Longrightarrow> \<not> (isWhiteSpace (hd (trimStart s)) \<or> isLineTerminator (hd (trimStart s)))"
  unfolding trimStart_def by (rule hd_dropWhile)

lemma trim_Nil_iff:
  "trim s = [] \<longleftrightarrow> (\<forall>c\<in>set s. isWhiteSpace c \<or> isLineTerminator c)"
proof
  assume "trim s = []"
  then have a: "\<forall>c\<in>set (trimStart s). isWhiteSpace c \<or> isLineTerminator c"
    by (simp add: trim_def trimEnd_Nil_iff)
  have "trimStart s = []"
  proof (rule ccontr)
    assume n: "trimStart s \<noteq> []"
    then have "hd (trimStart s) \<in> set (trimStart s)" by simp
    with a trimStart_hd [OF n] show False by blast
  qed
  then show "\<forall>c\<in>set s. isWhiteSpace c \<or> isLineTerminator c"
    by (simp add: trimStart_Nil_iff)
next
  assume "\<forall>c\<in>set s. isWhiteSpace c \<or> isLineTerminator c"
  then have "trimStart s = []" by (simp add: trimStart_Nil_iff)
  moreover have "trimStart [] = []" by (simp add: trimStart_def)
  ultimately show "trim s = []" by (simp add: trim_def trimEnd_def)
qed

lemma trim_spec:
  "\<exists>pre post. s = pre @ trim s @ post \<and>
     (\<forall>c\<in>set pre. isWhiteSpace c \<or> isLineTerminator c) \<and>
     (\<forall>c\<in>set post. isWhiteSpace c \<or> isLineTerminator c)"
proof -
  let ?w = "\<lambda>c. isWhiteSpace c \<or> isLineTerminator c"
  let ?t = "trimStart s"
  have 1: "s = takeWhile ?w s @ ?t" by (simp add: trimStart_def)
  have 2: "rev ?t = takeWhile ?w (rev ?t) @ trimStart (rev ?t)" by (simp add: trimStart_def)
  have "?t = rev (trimStart (rev ?t)) @ rev (takeWhile ?w (rev ?t))"
    using arg_cong [OF 2, of rev] by simp
  then have 3: "?t = trim s @ rev (takeWhile ?w (rev ?t))"
    by (simp add: trim_def trimEnd_def)
  have "s = takeWhile ?w s @ trim s @ rev (takeWhile ?w (rev ?t))"
    using 1 3 by metis
  moreover have "\<forall>c\<in>set (takeWhile ?w s). ?w c" by (metis set_takeWhileD)
  moreover have "\<forall>c\<in>set (rev (takeWhile ?w (rev ?t))). ?w c"
    using set_takeWhileD [of _ ?w "rev ?t"] by auto
  ultimately show ?thesis by blast
qed

lemma trim_ends:
  "trim s \<noteq> [] \<Longrightarrow>
     \<not> (isWhiteSpace (hd (trim s)) \<or> isLineTerminator (hd (trim s))) \<and>
     \<not> (isWhiteSpace (last (trim s)) \<or> isLineTerminator (last (trim s)))"
proof -
  let ?w = "\<lambda>c. isWhiteSpace c \<or> isLineTerminator c"
  let ?t = "trimStart s"
  assume n: "trim s \<noteq> []"
  have e: "trimStart [] = []" by (simp add: trimStart_def)
  have tn: "?t \<noteq> []"
  proof
    assume "?t = []"
    then have "trim s = []" by (simp add: trim_def trimEnd_def e)
    with n show False by simp
  qed
  have r: "trimStart (rev ?t) \<noteq> []" using n by (simp add: trim_def trimEnd_def)
  have l: "\<not> ?w (last (trim s))"
    using trimStart_hd [OF r] r by (simp add: trim_def trimEnd_def last_rev)
  have "\<not> ?w (hd ?t)" using trimStart_hd [OF tn] .
  moreover have "hd (trim s) = hd ?t"
  proof -
    obtain post where "?t = trim s @ post"
      using takeWhile_dropWhile_id [of ?w "rev ?t"]
      by (metis rev_append rev_rev_ident trim_def trimEnd_def trimStart_def)
    with n show ?thesis by (metis hd_append2)
  qed
  ultimately show ?thesis using l by simp
qed

lemmas ev = js_def trim_def trimEnd_def trimStart_def isWhiteSpace_def isLineTerminator_def falsy_def


section \<open>Properties of the submit handler\<close>

lemma run_Nil: "run [] s = s" by (simp add: run_def)
lemma run_Cons: "run (e # es) s = run es (perform s e)" by (simp add: run_def)
lemma run_append: "run (es @ fs) s = run fs (run es s)" by (simp add: run_def)

lemma run_onRejected:
  "run (onRejected err) s = s\<lparr>errorMessage := Some (faultMessage err), response := None\<rparr>"
  by (simp add: onRejected_def run_def Let_def)

lemma run_onResolved:
  "run (onResolved t r) s = s\<lparr>response := Some r\<rparr>"
  by (simp add: onResolved_def run_def)

lemma submit_invalid:
  "falsy (trim (nodeName s)) \<Longrightarrow>
   submit call s = s\<lparr>errorMessage := Some validationMessage, response := None\<rparr>"
  by (simp add: submit_def handleSubmit_def run_def Let_def)

lemma submit_rejected:
  "\<not> falsy (trim (nodeName s)) \<Longrightarrow> call (trim (nodeName s)) = Inl err \<Longrightarrow>
   submit call s = s\<lparr>loading := False, errorMessage := Some (faultMessage err), response := None\<rparr>"
  by (simp add: submit_def handleSubmit_def Let_def run_append run_Cons run_Nil run_onRejected)

lemma submit_resolved:
  "\<not> falsy (trim (nodeName s)) \<Longrightarrow> call (trim (nodeName s)) = Inr r \<Longrightarrow>
   submit call s = s\<lparr>loading := False, errorMessage := None, response := Some r\<rparr>"
  by (simp add: submit_def handleSubmit_def Let_def run_append run_Cons run_Nil run_onResolved)

text \<open>
  C1.  When the remote call fails, the handler reports exactly one error message,
  chosen by the shape of the fault: the \<^verbatim>\<open>rawMessage\<close> of a \<^verbatim>\<open>ConnectError\<close>,
  the \<^verbatim>\<open>message\<close> of any other \<^verbatim>\<open>Error\<close>, and the fixed fallback text for any
  other thrown value.  The message becomes the stored error message, and the
  previously displayed response is cleared.
\<close>

theorem handleSubmit_failure_message:
  assumes "\<not> falsy (trim (nodeName s))" and "call (trim (nodeName s)) = Inl err"
  shows "\<exists>m. errorToasts (handleSubmit call s) = [m] \<and>
             errorMessage (submit call s) = Some m \<and>
             response (submit call s) = None \<and>
             (case err of
                ConnectError raw msg \<Rightarrow> m = raw
              | Error msg \<Rightarrow> m = msg
              | OtherThrown \<Rightarrow> m = fallbackMessage)"
proof (intro exI conjI)
  show "errorToasts (handleSubmit call s) = [faultMessage err]"
    using assms by (simp add: handleSubmit_def Let_def errorToasts_def onRejected_def)
  show "errorMessage (submit call s) = Some (faultMessage err)"
    using assms by (simp add: submit_rejected)
  show "response (submit call s) = None"
    using assms by (simp add: submit_rejected)
  show "case err of ConnectError raw msg \<Rightarrow> faultMessage err = raw
        | Error msg \<Rightarrow> faultMessage err = msg
        | OtherThrown \<Rightarrow> faultMessage err = fallbackMessage"
    by (cases err) simp_all
qed

theorem handleSubmit_failure_message_witness:
  "errorToasts (handleSubmit (\<lambda>n. Inl (ConnectError (js ''node not found'') (js ''[not_found] node not found'')))
      \<lparr>nodeName = js ''edge-09'', loading = False, errorMessage = None, response = Some edge01\<rparr>)
     = [js ''node not found''] \<and>
   errorMessage (submit (\<lambda>n. Inl (ConnectError (js ''node not found'') (js ''[not_found] node not found'')))
      \<lparr>nodeName = js ''edge-09'', loading = False, errorMessage = None, response = Some edge01\<rparr>)
     = Some (js ''node not found'') \<and>
   response (submit (\<lambda>n. Inl (ConnectError (js ''node not found'') (js ''[not_found] node not found'')))
      \<lparr>nodeName = js ''edge-09'', loading = False, errorMessage = None, response = Some edge01\<rparr>)
     = None"
  using handleSubmit_failure_message
    [of "\<lparr>nodeName = js ''edge-09'', loading = False, errorMessage = None, response = Some edge01\<rparr>"
        "\<lambda>n. Inl (ConnectError (js ''node not found'') (js ''[not_found] node not found''))"
        "ConnectError (js ''node not found'') (js ''[not_found] node not found'')"]
  by (simp add: ev)

text \<open>
  C2.  When the input is empty or consists of white space only, its trimmed form
  is empty and the handler rejects it locally: the transport is not invoked, the
  fixed validation message is reported and stored, and the previously displayed
  response is cleared.
\<close>

theorem handleSubmit_rejects_blank:
  assumes "\<forall>c\<in>set (nodeName s). isWhiteSpace c \<or> isLineTerminator c"
  shows "trim (nodeName s) = [] \<and>
         dispatched (handleSubmit call s) = [] \<and>
         errorToasts (handleSubmit call s) = [validationMessage] \<and>
         errorMessage (submit call s) = Some validationMessage \<and>
         response (submit call s) = None"
proof -
  have t: "trim (nodeName s) = []" using assms by (simp add: trim_Nil_iff)
  then have f: "falsy (trim (nodeName s))" by (simp add: falsy_def)
  have "handleSubmit call s =
          [PreventDefault, SetErrorMessage (Some validationMessage), SetResponse None,
           ToastError validationMessage]"
    using f by (simp add: handleSubmit_def Let_def)
  then show ?thesis
    using t f by (simp add: dispatched_def errorToasts_def submit_invalid)
qed

theorem handleSubmit_rejects_blank_witness:
  "trim (js ''   '') = [] \<and>
   dispatched (handleSubmit (\<lambda>n. Inr edge01)
      \<lparr>nodeName = js ''   '', loading = False, errorMessage = None, response = Some edge01\<rparr>) = [] \<and>
   errorToasts (handleSubmit (\<lambda>n. Inr edge01)
      \<lparr>nodeName = js ''   '', loading = False, errorMessage = None, response = Some edge01\<rparr>)
     = [validationMessage] \<and>
   errorMessage (submit (\<lambda>n. Inr edge01)
      \<lparr>nodeName = js ''   '', loading = False, errorMessage = None, response = Some edge01\<rparr>)
     = Some validationMessage \<and>
   response (submit (\<lambda>n. Inr edge01)
      \<lparr>nodeName = js ''   '', loading = False, errorMessage = None, response = Some edge01\<rparr>)
     = None"
  using handleSubmit_rejects_blank
    [of "\<lparr>nodeName = js ''   '', loading = False, errorMessage = None, response = Some edge01\<rparr>"
        "\<lambda>n. Inr edge01"]
  by (simp add: js_def isWhiteSpace_def)

text \<open>
  C7.  In a submission that reaches the remote call, \<^verbatim>\<open>loading\<close> is true in the
  state in which the call is dispatched, the call is dispatched once, and the last
  step (the \<^verbatim>\<open>finally\<close> block) clears \<^verbatim>\<open>loading\<close>, whether the call resolved or
  was rejected: the flag is not set in the final state.
\<close>

theorem handleSubmit_loading_bracket:
  assumes "trim (nodeName s) \<noteq> []"
  shows "\<exists>before after.
           handleSubmit call s = before @ GetNodeConfig (trim (nodeName s)) # after \<and>
           loading (run before s) \<and>
           dispatched before = [] \<and> dispatched after = [] \<and>
           last (handleSubmit call s) = SetLoading False \<and>
           \<not> loading (submit call s)"
proof -
  let ?t = "trim (nodeName s)"
  let ?before = "[PreventDefault, SetLoading True, SetErrorMessage None]"
  let ?after = "(case call ?t of Inr result \<Rightarrow> onResolved ?t result | Inl err \<Rightarrow> onRejected err)
                 @ [SetLoading False]"
  have nf: "\<not> falsy ?t" using assms by (simp add: falsy_def)
  have h: "handleSubmit call s = ?before @ GetNodeConfig ?t # ?after"
    using nf by (simp add: handleSubmit_def Let_def)
  have l: "loading (run ?before s)" by (simp add: run_def)
  have b: "dispatched ?before = []" by (simp add: dispatched_def)
  have a: "dispatched ?after = []"
    by (cases "call ?t") (simp_all add: dispatched_def onRejected_def onResolved_def Let_def)
  have e: "last (handleSubmit call s) = SetLoading False"
    using nf by (simp add: handleSubmit_def Let_def)
  have f: "\<not> loading (submit call s)"
    using nf by (cases "call ?t") (simp_all add: submit_rejected submit_resolved)
  from h l b a e f show ?thesis by blast
qed

theorem handleSubmit_loading_bracket_witness:
  "\<not> loading (submit (\<lambda>n. Inr edge01)
      \<lparr>nodeName = js ''edge-01'', loading = False, errorMessage = None, response = None\<rparr>) \<and>
   \<not> loading (submit (\<lambda>n. Inl OtherThrown)
      \<lparr>nodeName = js ''edge-01'', loading = False, errorMessage = None, response = None\<rparr>) \<and>
   last (handleSubmit (\<lambda>n. Inl OtherThrown)
      \<lparr>nodeName = js ''edge-01'', loading = False, errorMessage = None, response = None\<rparr>)
     = SetLoading False"
  using
    handleSubmit_loading_bracket
      [of "\<lparr>nodeName = js ''edge-01'', loading = False, errorMessage = None, response = None\<rparr>"
          "\<lambda>n. Inr edge01"]
    handleSubmit_loading_bracket
      [of "\<lparr>nodeName = js ''edge-01'', loading = False, errorMessage = None, response = None\<rparr>"
          "\<lambda>n. Inl OtherThrown"]
  by (auto simp add: ev)

text \<open>
  C9.  When the trimmed input is not empty, the transport is invoked once, with
  the trimmed name.  The trimmed name is the input without a prefix and a suffix
  of white space, and neither starts nor ends with white space.  The input
  "  edge-01  " is sent as "edge-01".
\<close>

theorem handleSubmit_sends_trimmed:
  "(trim (nodeName s) \<noteq> [] \<longrightarrow>
      dispatched (handleSubmit call s) = [trim (nodeName s)]) \<and>
   (\<exists>pre post. nodeName s = pre @ trim (nodeName s) @ post \<and>
      (\<forall>c\<in>set pre. isWhiteSpace c \<or> isLineTerminator c) \<and>
      (\<forall>c\<in>set post. isWhiteSpace c \<or> isLineTerminator c)) \<and>
   (trim (nodeName s) \<noteq> [] \<longrightarrow>
      \<not> (isWhiteSpace (hd (trim (nodeName s))) \<or> isLineTerminator (hd (trim (nodeName s)))) \<and>
      \<not> (isWhiteSpace (last (trim (nodeName s))) \<or> isLineTerminator (last (trim (nodeName s))))) \<and>
   trim (js ''  edge-01  '') = js ''edge-01''"
proof (intro conjI impI)
  assume n: "trim (nodeName s) \<noteq> []"
  then have nf: "\<not> falsy (trim (nodeName s))" by (simp add: falsy_def)
  show "dispatched (handleSubmit call s) = [trim (nodeName s)]"
    using nf
    by (cases "call (trim (nodeName s))")
       (simp_all add: handleSubmit_def Let_def dispatched_def onRejected_def onResolved_def)
  show "\<not> (isWhiteSpace (hd (trim (nodeName s))) \<or> isLineTerminator (hd (trim (nodeName s))))"
    using trim_ends [OF n] by simp
  show "\<not> (isWhiteSpace (last (trim (nodeName s))) \<or> isLineTerminator (last (trim (nodeName s))))"
    using trim_ends [OF n] by simp
next
  show "\<exists>pre post. nodeName s = pre @ trim (nodeName s) @ post \<and>
      (\<forall>c\<in>set pre. isWhiteSpace c \<or> isLineTerminator c) \<and>
      (\<forall>c\<in>set post. isWhiteSpace c \<or> isLineTerminator c)"
    by (rule trim_spec)
  show "trim (js ''  edge-01  '') = js ''edge-01''"
    by (simp add: ev)
qed

theorem handleSubmit_sends_trimmed_witness:
  "dispatched (handleSubmit (\<lambda>n. Inr edge01)
      \<lparr>nodeName = js ''  edge-01  '', loading = False, errorMessage = None, response = None\<rparr>)
     = [js ''edge-01'']"
  using handleSubmit_sends_trimmed
      [of "\<lparr>nodeName = js ''  edge-01  '', loading = False, errorMessage = None, response = None\<rparr>"
          "\<lambda>n. Inr edge01"]
  by (simp add: ev)

text \<open>
  C10.  After a submission, whatever its outcome (local rejection, resolved call
  or rejected call), the stored error message and the stored response are never
  both set.
\<close>

theorem submit_error_xor_result:
  "errorMessage (submit call s) = None \<or> response (submit call s) = None"
proof (cases "falsy (trim (nodeName s))")
  case True
  then show ?thesis by (simp add: submit_invalid)
next
  case False
  then show ?thesis
    by (cases "call (trim (nodeName s))") (simp_all add: submit_rejected submit_resolved)
qed


section \<open>Properties of the payload interpretation\<close>

lemmas jev = js_def JSON_parse_def parseTokens_def isJSONWhiteSpace_def consToken_def
  isDigit_def scanNumber_def scanInteger_def scanFraction_def scanExponent_def scanDigits_def
  digitsValue_def digitValue_def toDouble_def mulPow_def ilog_def roundTiesToEven_def
  compute_floorlog Let_def consString_def escapeValue_def hex4_def hexValue_def
  putProperty_def arrayIndex_def

lemma JSON_parse_empty: "JSON_parse [] = None"
  by (simp add: jev)

text \<open>
  C5.  When the port mapping is present and \<^verbatim>\<open>configJson\<close> is the empty string,
  the interpretation is the "present but empty" state with the fixed placeholder
  text.  The empty string is not JSON, yet the result is not flagged as "not
  JSON", and the card shows the placeholder without the warning.
\<close>

theorem portMappingDetails_empty:
  assumes "configJson p = []"
  shows "portMappingDetails (Some p)
           = \<lparr>hasConfig = True, isJson = True, pretty = emptyPlaceholder\<rparr> \<and>
         JSON_parse (configJson p) = None \<and>
         (response s = Some \<lparr>name = n, portMapping = Some p\<rparr> \<longrightarrow>
            resultCard s
              = ResultCard n (PortMappingCard (getModeLabel (mode p))
                               (ConfigText emptyPlaceholder None)))"
  using assms
  by (simp add: portMappingDetails_def falsy_def JSON_parse_empty resultCard_def
      currentPortMapping_def)

theorem portMappingDetails_empty_witness:
  "portMappingDetails (Some \<lparr>mode = CLIENT, configJson = []\<rparr>)
     = \<lparr>hasConfig = True, isJson = True, pretty = emptyPlaceholder\<rparr> \<and>
   resultCard \<lparr>nodeName = js ''edge-03'', loading = False, errorMessage = None,
               response = Some \<lparr>name = js ''edge-03'',
                                  portMapping = Some \<lparr>mode = CLIENT, configJson = []\<rparr>\<rparr>\<rparr>
     = ResultCard (js ''edge-03'')
         (PortMappingCard (js ''Client'') (ConfigText emptyPlaceholder None))"
  using portMappingDetails_empty
    [of "\<lparr>mode = CLIENT, configJson = []\<rparr>"
        "\<lparr>nodeName = js ''edge-03'', loading = False, errorMessage = None,
               response = Some \<lparr>name = js ''edge-03'',
                                  portMapping = Some \<lparr>mode = CLIENT, configJson = []\<rparr>\<rparr>\<rparr>"
        "js ''edge-03''"]
  by (simp add: getModeLabel_def MODE_LABELS_def)

text \<open>
  C4, as stated, fails at the empty string: it is not valid JSON, but the text
  shown is the placeholder and the "not JSON" flag is not set.
\<close>

theorem portMappingDetails_not_json_counterexample:
  "JSON_parse [] = None \<and>
   pretty (portMappingDetails (Some \<lparr>mode = CLIENT, configJson = []\<rparr>)) \<noteq> [] \<and>
   isJson (portMappingDetails (Some \<lparr>mode = CLIENT, configJson = []\<rparr>))"
  by (simp add: portMappingDetails_def falsy_def JSON_parse_empty emptyPlaceholder_def)

text \<open>
  C4 (amended).  For every non-empty \<^verbatim>\<open>configJson\<close> that is not valid JSON, with
  the port mapping present, the text shown is the original string and the "not
  JSON" flag is set; the card shows the string with the warning.
\<close>

theorem portMappingDetails_not_json:
  assumes "configJson p \<noteq> []" and "JSON_parse (configJson p) = None"
  shows "portMappingDetails (Some p)
           = \<lparr>hasConfig = True, isJson = False, pretty = configJson p\<rparr> \<and>
         (response s = Some \<lparr>name = n, portMapping = Some p\<rparr> \<longrightarrow>
            resultCard s
              = ResultCard n (PortMappingCard (getModeLabel (mode p))
                               (ConfigText (configJson p) (Some notJsonText))))"
  using assms
  by (simp add: portMappingDetails_def falsy_def resultCard_def currentPortMapping_def)

theorem portMappingDetails_not_json_witness:
  "portMappingDetails (Some \<lparr>mode = CLIENT, configJson = js ''not json''\<rparr>)
     = \<lparr>hasConfig = True, isJson = False, pretty = js ''not json''\<rparr> \<and>
   resultCard \<lparr>nodeName = js ''edge-04'', loading = False, errorMessage = None,
               response = Some \<lparr>name = js ''edge-04'',
                  portMapping = Some \<lparr>mode = CLIENT, configJson = js ''not json''\<rparr>\<rparr>\<rparr>
     = ResultCard (js ''edge-04'')
         (PortMappingCard (js ''Client'') (ConfigText (js ''not json'') (Some notJsonText)))"
proof -
  have p: "JSON_parse (js ''not json'') = None" by (simp add: jev)
  have n: "js ''not json'' \<noteq> []" by (simp add: js_def)
  show ?thesis
    using portMappingDetails_not_json
      [of "\<lparr>mode = CLIENT, configJson = js ''not json''\<rparr>"
          "\<lparr>nodeName = js ''edge-04'', loading = False, errorMessage = None,
               response = Some \<lparr>name = js ''edge-04'',
                  portMapping = Some \<lparr>mode = CLIENT, configJson = js ''not json''\<rparr>\<rparr>\<rparr>"
          "js ''edge-04''"] p n
    by (simp add: getModeLabel_def MODE_LABELS_def)
qed

text \<open>
  C8.  When the call resolves with a response that has no port mapping, the
  response becomes the stored result, the card shows the "no port mapping" text
  for it, the interpretation has no configuration, and one informational notice
  and no error notice is raised.
\<close>

theorem handleSubmit_no_port_mapping:
  assumes "trim (nodeName s) \<noteq> []"
      and "call (trim (nodeName s)) = Inr result"
      and "portMapping result = None"
  shows "response (submit call s) = Some result \<and>
         errorMessage (submit call s) = None \<and>
         resultCard (submit call s) = ResultCard (name result) (NoPortMapping noPortMappingText) \<and>
         portMappingDetails (currentPortMapping (submit call s))
           = \<lparr>hasConfig = False, isJson = True, pretty = []\<rparr> \<and>
         infoToasts (handleSubmit call s) = [noPortMappingNotice] \<and>
         errorToasts (handleSubmit call s) = []"
proof -
  have nf: "\<not> falsy (trim (nodeName s))" using assms(1) by (simp add: falsy_def)
  have st: "submit call s = s\<lparr>loading := False, errorMessage := None, response := Some result\<rparr>"
    using nf assms(2)
    by (simp add: submit_def handleSubmit_def Let_def run_def onResolved_def)
  have h: "handleSubmit call s =
             [PreventDefault, SetLoading True, SetErrorMessage None,
              GetNodeConfig (trim (nodeName s)), SetResponse (Some result),
              ToastSuccess (successMessage
                 (if falsy (name result) then trim (nodeName s) else name result)),
              ToastInfo noPortMappingNotice, SetLoading False]"
    using nf assms(2,3) by (simp add: handleSubmit_def Let_def onResolved_def)
  show ?thesis
    using assms(3)
    by (simp add: st h resultCard_def currentPortMapping_def portMappingDetails_def
        infoToasts_def errorToasts_def)
qed

theorem handleSubmit_no_port_mapping_witness:
  "response (submit (\<lambda>n. Inr \<lparr>name = js ''edge-02'', portMapping = None\<rparr>)
      \<lparr>nodeName = js ''edge-02'', loading = False, errorMessage = None, response = None\<rparr>)
     = Some \<lparr>name = js ''edge-02'', portMapping = None\<rparr> \<and>
   resultCard (submit (\<lambda>n. Inr \<lparr>name = js ''edge-02'', portMapping = None\<rparr>)
      \<lparr>nodeName = js ''edge-02'', loading = False, errorMessage = None, response = None\<rparr>)
     = ResultCard (js ''edge-02'') (NoPortMapping noPortMappingText) \<and>
   infoToasts (handleSubmit (\<lambda>n. Inr \<lparr>name = js ''edge-02'', portMapping = None\<rparr>)
      \<lparr>nodeName = js ''edge-02'', loading = False, errorMessage = None, response = None\<rparr>)
     = [noPortMappingNotice]"
  using handleSubmit_no_port_mapping
    [of "\<lparr>nodeName = js ''edge-02'', loading = False, errorMessage = None, response = None\<rparr>"
        "\<lambda>n. Inr \<lparr>name = js ''edge-02'', portMapping = None\<rparr>"
        "\<lparr>name = js ''edge-02'', portMapping = None\<rparr>"]
  by (simp add: ev)

end
